theory Spec2Isabelle
  imports Complex_Main
begin

section \<open>Primitive range types (src/types/primitives.ts)\<close>

text \<open>
  A TypeScript \<^verbatim>\<open>number\<close> literal is modelled by its (exact) rational value, and a
  union of number-literal types by the set of its members; the empty union is
  \<^verbatim>\<open>never\<close>. The bounds handed to \<^verbatim>\<open>NumericRange\<close> are integer literals.
\<close>

type_synonym number_union = "rat set"

text \<open>
  The indexed access \<^verbatim>\<open>ARR[START]\<close> on a tuple type without rest element. A
  non-negative index gives the element type at that position, and \<^verbatim>\<open>undefined\<close> when
  the tuple has no such position. A negative index is no position of a tuple; the access
  then goes through the number index signature, whose type is the union of the element
  types (\<^verbatim>\<open>never\<close> for the empty tuple).
\<close>

datatype 'a indexed = Undefined | Elements "'a set"

definition tuple_index :: "'a list \<Rightarrow> int \<Rightarrow> 'a indexed" where
  "tuple_index ARR i =
     (if 0 \<le> i
      then (if i < int (length ARR) then Elements {ARR ! nat i} else Undefined)
      else Elements (set ARR))"

text \<open>
  \<^verbatim>\<open>T extends undefined\<close> for the result of an indexed access: \<^verbatim>\<open>undefined\<close> and
  \<^verbatim>\<open>never\<close> (the empty union) are assignable to \<^verbatim>\<open>undefined\<close>; an element type of
  the tuple, the literal \<^verbatim>\<open>1\<close>, is not.
\<close>

fun extends_undefined :: "'a indexed \<Rightarrow> bool" where
  "extends_undefined Undefined = True"
| "extends_undefined (Elements S) = (S = {})"

text \<open>
  \<^verbatim>\<open>
  export type NumericRange<START extends number, END extends number,
                           ARR extends unknown[] = [], ACC extends number = never>
    = ARR['length'] extends END
      ? ACC | START | END
      : NumericRange<START, END, [...ARR, 1],
                     ARR[START] extends undefined ? ACC : ACC | ARR['length']>
  \<close>
  The alias is a tail-recursive conditional type. The checker evaluates it in a loop and
  gives up at the 1000th tail call with \<^verbatim>\<open>TS2589: Type instantiation is excessively deep
  and possibly infinite\<close>; no type is produced then, which is the result \<open>None\<close>. This is
  the limit the comments of the source refer to (\<^verbatim>\<open>fit within TypeScript limits\<close>,
  \<^verbatim>\<open>avoid TypeScript recursion limits\<close>); its value belongs to the checker, not to the
  repository. The first argument of \<open>NumericRange_tail\<close> counts the evaluations of the
  conditional type that the checker still allows.
\<close>

definition tail_recursion_limit :: nat where
  "tail_recursion_limit = 1000"

fun NumericRange_tail ::
  "nat \<Rightarrow> int \<Rightarrow> int \<Rightarrow> nat list \<Rightarrow> number_union \<Rightarrow> number_union option" where
  "NumericRange_tail 0 START END ARR ACC = None"
| "NumericRange_tail (Suc n) START END ARR ACC =
     (if int (length ARR) = END
      then Some (ACC \<union> {of_int START} \<union> {of_int END})
      else NumericRange_tail n START END (ARR @ [1])
             (if extends_undefined (tuple_index ARR START) then ACC
              else ACC \<union> {of_nat (length ARR)}))"

text \<open>
  An instantiation of the alias, with the checker's limit. The two-argument instantiation
  \<^verbatim>\<open>NumericRange<lo, hi>\<close> takes the defaults and is \<open>NumericRange lo hi [] {}\<close>.
\<close>

definition NumericRange ::
  "int \<Rightarrow> int \<Rightarrow> nat list \<Rightarrow> number_union \<Rightarrow> number_union option" where
  "NumericRange START END ARR ACC =
     NumericRange_tail tail_recursion_limit START END ARR ACC"

text \<open>The aliases instantiating \<^verbatim>\<open>NumericRange\<close>, in the order of the source.\<close>

definition Percentage :: "number_union option" where
  "Percentage = NumericRange 0 100 [] {}"

definition OpacityRange :: "number_union option" where
  "OpacityRange = NumericRange 0 100 [] {}"

definition LabelIndex :: "number_union option" where
  "LabelIndex = NumericRange 0 16 [] {}"

definition ColorComponent :: "number_union option" where
  "ColorComponent = NumericRange 0 1 [] {}"

definition ConeAngleRange :: "number_union option" where
  "ConeAngleRange = NumericRange 1 179 [] {}"

definition IORRange :: "number_union option" where
  "IORRange = NumericRange 1 3 [] {}"

text \<open>
  The same instantiations as a table of alias name, \<^verbatim>\<open>START\<close> and \<^verbatim>\<open>END\<close>, and the
  span \<^verbatim>\<open>END - START\<close> of an entry.
\<close>

type_synonym range_alias = "string \<times> int \<times> int"

definition NumericRange_aliases :: "range_alias list" where
  "NumericRange_aliases =
     [(''Percentage'', 0, 100),
      (''OpacityRange'', 0, 100),
      (''LabelIndex'', 0, 16),
      (''ColorComponent'', 0, 1),
      (''ConeAngleRange'', 1, 179),
      (''IORRange'', 1, 3)]"

fun span :: "range_alias \<Rightarrow> int" where
  "span (name, lo, hi) = hi - lo"

fun instantiate :: "range_alias \<Rightarrow> number_union option" where
  "instantiate (name, lo, hi) = NumericRange lo hi [] {}"

definition span_at_most :: "int \<Rightarrow> range_alias \<Rightarrow> bool" where
  "span_at_most bound a = (span a \<le> bound)"

text \<open>
  \<^verbatim>\<open>export type Color = [ColorComponent, ColorComponent, ColorComponent]\<close>:
  a triple is a value of the tuple type when each component is a member of
  \<^verbatim>\<open>ColorComponent\<close>.
\<close>

definition Color :: "(rat \<times> rat \<times> rat) set option" where
  "Color = (case ColorComponent of None \<Rightarrow> None | Some C \<Rightarrow> Some (C \<times> C \<times> C))"

text \<open>
  The range the declarations document for a colour component
  (\<^verbatim>\<open>each component is 0.0 to 1.0 (floating-point RGB)\<close>).
\<close>

definition in_documented :: "rat \<times> rat \<Rightarrow> rat \<Rightarrow> bool" where
  "in_documented d x = (fst d \<le> x \<and> x \<le> snd d)"

definition ColorComponent_documented :: "rat \<times> rat" where
  "ColorComponent_documented = (0, 1)"

subsection \<open>Branded numbers\<close>

text \<open>
  \<^verbatim>\<open>export type TimeRange = number & { __brand: 'TimeRange' }\<close>: a number that
  carries the phantom property \<^verbatim>\<open>__brand\<close>. The intersection constrains the tag
  and leaves the number as \<^verbatim>\<open>number\<close>; the bounds appear in the trailing
  comments only.
\<close>

record branded_number =
  number_part :: rat
  brand :: string

definition ApertureRange :: "branded_number set" where
  "ApertureRange = {v. brand v = ''ApertureRange''}"

definition TimeRange :: "branded_number set" where
  "TimeRange = {v. brand v = ''TimeRange''}"

definition DurationRange :: "branded_number set" where
  "DurationRange = {v. brand v = ''DurationRange''}"

definition PixelDimension :: "branded_number set" where
  "PixelDimension = {v. brand v = ''PixelDimension''}"

text \<open>The type assertion \<^verbatim>\<open>x as T\<close> of a number to the branded type tagged \<open>T\<close>.\<close>

definition as_brand :: "string \<Rightarrow> rat \<Rightarrow> branded_number" where
  "as_brand tag x = \<lparr>number_part = x, brand = tag\<rparr>"

text \<open>The bounds of the comments: \<^verbatim>\<open>// Range: 1.4 to 32.0\<close> and so on.\<close>

definition ApertureRange_documented :: "rat \<times> rat" where
  "ApertureRange_documented = (14 / 10, 32)"

definition TimeRange_documented :: "rat \<times> rat" where
  "TimeRange_documented = (- 10800, 10800)"

definition DurationRange_documented :: "rat \<times> rat" where
  "DurationRange_documented = (0, 10800)"

definition PixelDimension_documented :: "rat \<times> rat" where
  "PixelDimension_documented = (1, 30000)"

section \<open>The reference algorithm of the specification\<close>

text \<open>
  The specification's iterative accumulation: a counter starts at the lower bound; each
  step adds the counter's value to the result and increments the counter; the loop stops
  once the counter reaches the upper bound; both endpoints are always included.
\<close>

partial_function (option) spec_accumulate ::
  "int \<Rightarrow> int \<Rightarrow> number_union \<Rightarrow> number_union option" where
  "spec_accumulate counter upper result =
     (if counter = upper then Some result
      else spec_accumulate (counter + 1) upper (result \<union> {of_int counter}))"

declare spec_accumulate.simps [code]

definition spec_interval :: "int \<Rightarrow> int \<Rightarrow> number_union option" where
  "spec_interval lower upper =
     map_option (\<lambda>result. result \<union> {of_int lower} \<union> {of_int upper})
       (spec_accumulate lower upper {})"

section \<open>Layer enumerations\<close>

text \<open>
  Each \<^verbatim>\<open>declare enum\<close> of the layer module is a datatype of its member names, in the
  order of the declaration, with the initialiser of each member as its code. Where the
  comment of a member states \<^verbatim>\<open>@remarks Integer value: n\<close>, a second function records
  the number of the comment. The members of \<^verbatim>\<open>BlendingMode\<close> carry no such remark.
\<close>

datatype AutoOrientType =
    ALONG_PATH | CAMERA_OR_POINT_OF_INTEREST | CHARACTERS_TOWARD_CAMERA | NO_AUTO_ORIENT

fun AutoOrientType_code :: "AutoOrientType \<Rightarrow> int" where
  "AutoOrientType_code ALONG_PATH = 4213"
| "AutoOrientType_code CAMERA_OR_POINT_OF_INTEREST = 4214"
| "AutoOrientType_code CHARACTERS_TOWARD_CAMERA = 4215"
| "AutoOrientType_code NO_AUTO_ORIENT = 4212"

fun AutoOrientType_documented :: "AutoOrientType \<Rightarrow> int" where
  "AutoOrientType_documented ALONG_PATH = 4213"
| "AutoOrientType_documented CAMERA_OR_POINT_OF_INTEREST = 4214"
| "AutoOrientType_documented CHARACTERS_TOWARD_CAMERA = 4215"
| "AutoOrientType_documented NO_AUTO_ORIENT = 4212"

definition AutoOrientType_members :: "AutoOrientType list" where
  "AutoOrientType_members =
     [ALONG_PATH, CAMERA_OR_POINT_OF_INTEREST, CHARACTERS_TOWARD_CAMERA, NO_AUTO_ORIENT]"

datatype BlendingMode =
    ADD | ALPHA_ADD | CLASSIC_COLOR_BURN | CLASSIC_COLOR_DODGE | CLASSIC_DIFFERENCE
  | COLOR | COLOR_BURN | COLOR_DODGE | DANCING_DISSOLVE | DARKEN | DARKER_COLOR
  | DIFFERENCE | DISSOLVE | DIVIDE | EXCLUSION | HARD_LIGHT | HARD_MIX | HUE
  | LIGHTEN | LIGHTER_COLOR | LINEAR_BURN | LINEAR_DODGE | LINEAR_LIGHT
  | LUMINESCENT_PREMUL | LUMINOSITY | MULTIPLY | NORMAL | OVERLAY | PIN_LIGHT
  | SATURATION | SCREEN | SILHOUETE_ALPHA | SILHOUETTE_LUMA | SOFT_LIGHT
  | STENCIL_ALPHA | STENCIL_LUMA | SUBTRACT | VIVID_LIGHT

fun BlendingMode_code :: "BlendingMode \<Rightarrow> int" where
  "BlendingMode_code ADD = 5220"
| "BlendingMode_code ALPHA_ADD = 5244"
| "BlendingMode_code CLASSIC_COLOR_BURN = 5213"
| "BlendingMode_code CLASSIC_COLOR_DODGE = 5212"
| "BlendingMode_code CLASSIC_DIFFERENCE = 5209"
| "BlendingMode_code COLOR = 5216"
| "BlendingMode_code COLOR_BURN = 5227"
| "BlendingMode_code COLOR_DODGE = 5226"
| "BlendingMode_code DANCING_DISSOLVE = 5206"
| "BlendingMode_code DARKEN = 5207"
| "BlendingMode_code DARKER_COLOR = 5245"
| "BlendingMode_code DIFFERENCE = 5223"
| "BlendingMode_code DISSOLVE = 5205"
| "BlendingMode_code DIVIDE = 5246"
| "BlendingMode_code EXCLUSION = 5224"
| "BlendingMode_code HARD_LIGHT = 5218"
| "BlendingMode_code HARD_MIX = 5230"
| "BlendingMode_code HUE = 5214"
| "BlendingMode_code LIGHTEN = 5208"
| "BlendingMode_code LIGHTER_COLOR = 5243"
| "BlendingMode_code LINEAR_BURN = 5228"
| "BlendingMode_code LINEAR_DODGE = 5229"
| "BlendingMode_code LINEAR_LIGHT = 5233"
| "BlendingMode_code LUMINESCENT_PREMUL = 5221"
| "BlendingMode_code LUMINOSITY = 5217"
| "BlendingMode_code MULTIPLY = 5210"
| "BlendingMode_code NORMAL = 5204"
| "BlendingMode_code OVERLAY = 5211"
| "BlendingMode_code PIN_LIGHT = 5234"
| "BlendingMode_code SATURATION = 5215"
| "BlendingMode_code SCREEN = 5222"
| "BlendingMode_code SILHOUETE_ALPHA = 5219"
| "BlendingMode_code SILHOUETTE_LUMA = 5225"
| "BlendingMode_code SOFT_LIGHT = 5231"
| "BlendingMode_code STENCIL_ALPHA = 5235"
| "BlendingMode_code STENCIL_LUMA = 5236"
| "BlendingMode_code SUBTRACT = 5247"
| "BlendingMode_code VIVID_LIGHT = 5232"

definition BlendingMode_members :: "BlendingMode list" where
  "BlendingMode_members =
     [ADD, ALPHA_ADD, CLASSIC_COLOR_BURN, CLASSIC_COLOR_DODGE, CLASSIC_DIFFERENCE,
      COLOR, COLOR_BURN, COLOR_DODGE, DANCING_DISSOLVE, DARKEN, DARKER_COLOR,
      DIFFERENCE, DISSOLVE, DIVIDE, EXCLUSION, HARD_LIGHT, HARD_MIX, HUE, LIGHTEN,
      LIGHTER_COLOR, LINEAR_BURN, LINEAR_DODGE, LINEAR_LIGHT, LUMINESCENT_PREMUL,
      LUMINOSITY, MULTIPLY, NORMAL, OVERLAY, PIN_LIGHT, SATURATION, SCREEN,
      SILHOUETE_ALPHA, SILHOUETTE_LUMA, SOFT_LIGHT, STENCIL_ALPHA, STENCIL_LUMA,
      SUBTRACT, VIVID_LIGHT]"

datatype FrameBlendingType =
    FRAME_MIX | NO_FRAME_BLEND | PIXEL_MOTION

fun FrameBlendingType_code :: "FrameBlendingType \<Rightarrow> int" where
  "FrameBlendingType_code FRAME_MIX = 11213"
| "FrameBlendingType_code NO_FRAME_BLEND = 11211"
| "FrameBlendingType_code PIXEL_MOTION = 11212"

fun FrameBlendingType_documented :: "FrameBlendingType \<Rightarrow> int" where
  "FrameBlendingType_documented FRAME_MIX = 11213"
| "FrameBlendingType_documented NO_FRAME_BLEND = 11211"
| "FrameBlendingType_documented PIXEL_MOTION = 11212"

definition FrameBlendingType_members :: "FrameBlendingType list" where
  "FrameBlendingType_members =
     [FRAME_MIX, NO_FRAME_BLEND, PIXEL_MOTION]"

datatype LayerQuality =
    BEST | DRAFT | WIREFRAME

fun LayerQuality_code :: "LayerQuality \<Rightarrow> int" where
  "LayerQuality_code BEST = 10212"
| "LayerQuality_code DRAFT = 10210"
| "LayerQuality_code WIREFRAME = 10211"

fun LayerQuality_documented :: "LayerQuality \<Rightarrow> int" where
  "LayerQuality_documented BEST = 10212"
| "LayerQuality_documented DRAFT = 10210"
| "LayerQuality_documented WIREFRAME = 10211"

definition LayerQuality_members :: "LayerQuality list" where
  "LayerQuality_members =
     [BEST, DRAFT, WIREFRAME]"

datatype LayerSamplingQuality =
    BICUBIC | BILINEAR

fun LayerSamplingQuality_code :: "LayerSamplingQuality \<Rightarrow> int" where
  "LayerSamplingQuality_code BICUBIC = 10201"
| "LayerSamplingQuality_code BILINEAR = 10202"

fun LayerSamplingQuality_documented :: "LayerSamplingQuality \<Rightarrow> int" where
  "LayerSamplingQuality_documented BICUBIC = 10201"
| "LayerSamplingQuality_documented BILINEAR = 10202"

definition LayerSamplingQuality_members :: "LayerSamplingQuality list" where
  "LayerSamplingQuality_members =
     [BICUBIC, BILINEAR]"

datatype LightType =
    AMBIENT | PARALLEL | POINT | SPOT

fun LightType_code :: "LightType \<Rightarrow> int" where
  "LightType_code AMBIENT = 4412"
| "LightType_code PARALLEL = 4414"
| "LightType_code POINT = 4411"
| "LightType_code SPOT = 4413"

fun LightType_documented :: "LightType \<Rightarrow> int" where
  "LightType_documented AMBIENT = 4412"
| "LightType_documented PARALLEL = 4414"
| "LightType_documented POINT = 4411"
| "LightType_documented SPOT = 4413"

definition LightType_members :: "LightType list" where
  "LightType_members =
     [AMBIENT, PARALLEL, POINT, SPOT]"

datatype TrackMatteType =
    ALPHA | ALPHA_INVERTED | LUMA | LUMA_INVERTED | NO_TRACK_MATTE

fun TrackMatteType_code :: "TrackMatteType \<Rightarrow> int" where
  "TrackMatteType_code ALPHA = 11312"
| "TrackMatteType_code ALPHA_INVERTED = 11313"
| "TrackMatteType_code LUMA = 11314"
| "TrackMatteType_code LUMA_INVERTED = 11315"
| "TrackMatteType_code NO_TRACK_MATTE = 11311"

fun TrackMatteType_documented :: "TrackMatteType \<Rightarrow> int" where
  "TrackMatteType_documented ALPHA = 11312"
| "TrackMatteType_documented ALPHA_INVERTED = 11313"
| "TrackMatteType_documented LUMA = 11314"
| "TrackMatteType_documented LUMA_INVERTED = 11315"
| "TrackMatteType_documented NO_TRACK_MATTE = 11311"

definition TrackMatteType_members :: "TrackMatteType list" where
  "TrackMatteType_members =
     [ALPHA, ALPHA_INVERTED, LUMA, LUMA_INVERTED, NO_TRACK_MATTE]"

section \<open>Properties of NumericRange\<close>

text \<open>
  The general step count: started on a tuple no longer than \<open>END\<close>, with a non-negative
  \<open>START\<close> and enough evaluations left to reach \<open>END\<close>, the recursion ends and has
  added every length strictly between the bounds that it passed.
\<close>

lemma NumericRange_tail_from:
  assumes "0 \<le> START"
    and "int (length ARR) \<le> END" and "END < int (length ARR) + int n"
  shows "NumericRange_tail n START END ARR ACC =
           Some (ACC \<union> of_int ` {j. int (length ARR) \<le> j \<and> START < j \<and> j < END}
                   \<union> {of_int START, of_int END})"
  using assms(2,3)
proof (induction n arbitrary: ARR ACC)
  case 0
  then show ?case by simp
next
  case (Suc n)
  show ?case
  proof (cases "int (length ARR) = END")
    case True
    then have "{j. int (length ARR) \<le> j \<and> START < j \<and> j < END} = {}" by auto
    with True show ?thesis by auto
  next
    case False
    with Suc.prems have le: "int (length (ARR @ [1::nat])) \<le> END"
      and lt: "END < int (length (ARR @ [1::nat])) + int n"
      by auto
    note IH = Suc.IH [OF le lt]
    have passed: "{j. int (length ARR) \<le> j \<and> START < j \<and> j < END} =
        (if START < int (length ARR) then {int (length ARR)} else {})
          \<union> {j. int (length (ARR @ [1::nat])) \<le> j \<and> START < j \<and> j < END}"
      using False le by auto
    have undef: "extends_undefined (tuple_index ARR START) \<longleftrightarrow> \<not> START < int (length ARR)"
      using assms(1) by (simp add: tuple_index_def)
    show ?thesis
      apply (simp only: NumericRange_tail.simps False if_False IH undef)
      apply (subst passed)
      apply auto
      done
  qed
qed

text \<open>Without enough evaluations left, or started beyond \<open>END\<close>, no type is produced.\<close>

lemma NumericRange_tail_None:
  assumes "END < int (length ARR) \<or> int (length ARR) + int n \<le> END"
  shows "NumericRange_tail n START END ARR ACC = None"
  using assms
proof (induction n arbitrary: ARR ACC)
  case 0
  then show ?case by simp
next
  case (Suc n)
  then have ne: "int (length ARR) \<noteq> END"
    and next_step: "END < int (length (ARR @ [1::nat]))
       \<or> int (length (ARR @ [1::nat])) + int n \<le> END"
    by auto
  from Suc.IH [OF next_step] ne show ?case by simp
qed


text \<open>One evaluation of an instantiation, for unfolding at numerals.\<close>

lemma NumericRange_tail_unfold:
  assumes "0 < n"
  shows "NumericRange_tail n START END ARR ACC =
     (if int (length ARR) = END
      then Some (ACC \<union> {of_int START} \<union> {of_int END})
      else NumericRange_tail (n - 1) START END (ARR @ [1])
             (if extends_undefined (tuple_index ARR START) then ACC
              else ACC \<union> {of_nat (length ARR)}))"
  using assms by (cases n) simp_all

lemma NumericRange_nat_interval:
  assumes "0 \<le> lo" and "lo \<le> hi" and "hi < 1000"
  shows "NumericRange lo hi [] {} = Some (of_int ` {lo..hi})"
proof -
  have "{lo..hi} = {j. (0::int) \<le> j \<and> lo < j \<and> j < hi} \<union> {lo, hi}"
    using assms by auto
  then have "(of_int ` {lo..hi} :: rat set) =
      of_int ` ({j. (0::int) \<le> j \<and> lo < j \<and> j < hi} \<union> {lo, hi})"
    by simp
  also have "\<dots> =
      of_int ` {j. (0::int) \<le> j \<and> lo < j \<and> j < hi} \<union> {of_int lo, of_int hi}"
    by (simp only: image_Un image_insert image_empty)
  finally show ?thesis
    using NumericRange_tail_from [of lo "[]" hi 1000 "{}"] assms
    by (simp add: NumericRange_def tail_recursion_limit_def)
qed

lemma NumericRange_reversed_nat:
  assumes "0 \<le> hi" and "hi < lo" and "hi < 1000"
  shows "NumericRange lo hi [] {} = Some {of_int lo, of_int hi}"
proof -
  have "{j. (0::int) \<le> j \<and> lo < j \<and> j < hi} = {}"
    using assms by auto
  with NumericRange_tail_from [of lo "[]" hi 1000 "{}"] assms show ?thesis
    by (simp add: NumericRange_def tail_recursion_limit_def)
qed


lemma NumericRange_too_deep:
  assumes "1000 \<le> hi"
  shows "NumericRange lo hi [] {} = None"
  using NumericRange_tail_None [of hi "[]" 1000 lo "{}"] assms
  by (simp add: NumericRange_def tail_recursion_limit_def)


text \<open>\<^verbatim>\<open>NumericRange<-1, 1>\<close>: one step on the empty tuple, then the length meets \<open>END\<close>.\<close>

lemma NumericRange_minus1_1: "NumericRange (- 1) 1 [] {} = Some {- 1, 1}"
  by (simp add: NumericRange_def tail_recursion_limit_def NumericRange_tail_unfold
      tuple_index_def insert_commute)

text \<open>
  \<^verbatim>\<open>NumericRange<-1, 3>\<close>: from the second step on the tuple is not empty, the negative
  index gives the element type, and the lengths 1 and 2 are added.
\<close>

lemma NumericRange_minus1_3: "NumericRange (- 1) 3 [] {} = Some {- 1, 1, 2, 3}"
  by (simp add: NumericRange_def tail_recursion_limit_def NumericRange_tail_unfold
      tuple_index_def insert_commute)


subsection \<open>The reference algorithm\<close>

lemma spec_accumulate_from:
  assumes "counter \<le> upper"
  shows "spec_accumulate counter upper result = Some (result \<union> of_int ` {counter..<upper})"
  using assms
proof (induction "nat (upper - counter)" arbitrary: counter result)
  case 0
  then have "counter = upper" by simp
  then show ?case by (subst spec_accumulate.simps) simp
next
  case (Suc d)
  then have ne: "counter \<noteq> upper" and le: "counter + 1 \<le> upper"
    and d: "d = nat (upper - (counter + 1))"
    by auto
  have unroll: "{counter..<upper} = insert counter {counter + 1..<upper}"
    using le by auto
  show ?case
    apply (subst spec_accumulate.simps)
    apply (simp only: ne if_False Suc.hyps(1) [OF d le])
    apply (subst unroll)
    apply simp
    done
qed

lemma spec_interval_closed:
  assumes "lo \<le> hi"
  shows "spec_interval lo hi = Some (of_int ` {lo..hi})"
proof -
  have acc: "spec_accumulate lo hi {} = Some (of_int ` {lo..<hi})"
    using spec_accumulate_from [OF assms, of "{}"] by simp
  have "{lo..hi} = insert hi (insert lo {lo..<hi})"
    using assms by auto
  then have "(of_int ` {lo..hi} :: rat set) =
      insert (of_int hi) (insert (of_int lo) (of_int ` {lo..<hi}))"
    by (simp only: image_insert)
  then show ?thesis
    by (simp add: spec_interval_def acc)
qed

lemma spec_interval_minus1_1: "spec_interval (- 1) 1 = Some {- 1, 0, 1}"
proof -
  have "{- 1..1::int} = {- 1, 0, 1}" by auto
  then have "(of_int ` {- 1..1::int} :: rat set) = {- 1, 0, 1}" by simp
  with spec_interval_closed [of "- 1" 1] show ?thesis by simp
qed

section \<open>Properties of the enumerations\<close>

text \<open>The member list of each enumeration is complete, which gives the set of its codes.\<close>

lemma AutoOrientType_UNIV: "UNIV = set AutoOrientType_members"
proof -
  have "m \<in> set AutoOrientType_members" for m
    by (cases m) (simp_all add: AutoOrientType_members_def)
  then show ?thesis by blast
qed

lemma AutoOrientType_range: "range AutoOrientType_code =
     {4213, 4214, 4215, 4212}"
  unfolding AutoOrientType_UNIV by (simp add: AutoOrientType_members_def)

lemma AutoOrientType_inj: "inj AutoOrientType_code"
proof -
  have "distinct (map AutoOrientType_code AutoOrientType_members)"
    by (simp add: AutoOrientType_members_def)
  then have "inj_on AutoOrientType_code (set AutoOrientType_members)"
    by (simp add: distinct_map)
  then show ?thesis
    by (simp only: AutoOrientType_UNIV [symmetric])
qed

lemma BlendingMode_UNIV: "UNIV = set BlendingMode_members"
proof -
  have "m \<in> set BlendingMode_members" for m
    by (cases m) (simp_all add: BlendingMode_members_def)
  then show ?thesis by blast
qed

lemma BlendingMode_range: "range BlendingMode_code =
     {5220, 5244, 5213, 5212, 5209, 5216, 5227, 5226, 5206, 5207, 5245, 5223, 5205,
      5246, 5224, 5218, 5230, 5214, 5208, 5243, 5228, 5229, 5233, 5221, 5217, 5210,
      5204, 5211, 5234, 5215, 5222, 5219, 5225, 5231, 5235, 5236, 5247, 5232}"
  unfolding BlendingMode_UNIV by (simp add: BlendingMode_members_def)

lemma BlendingMode_inj: "inj BlendingMode_code"
proof -
  have "distinct (map BlendingMode_code BlendingMode_members)"
    by (simp add: BlendingMode_members_def)
  then have "inj_on BlendingMode_code (set BlendingMode_members)"
    by (simp add: distinct_map)
  then show ?thesis
    by (simp only: BlendingMode_UNIV [symmetric])
qed

lemma FrameBlendingType_UNIV: "UNIV = set FrameBlendingType_members"
proof -
  have "m \<in> set FrameBlendingType_members" for m
    by (cases m) (simp_all add: FrameBlendingType_members_def)
  then show ?thesis by blast
qed

lemma FrameBlendingType_range: "range FrameBlendingType_code =
     {11213, 11211, 11212}"
  unfolding FrameBlendingType_UNIV by (simp add: FrameBlendingType_members_def)

lemma FrameBlendingType_inj: "inj FrameBlendingType_code"
proof -
  have "distinct (map FrameBlendingType_code FrameBlendingType_members)"
    by (simp add: FrameBlendingType_members_def)
  then have "inj_on FrameBlendingType_code (set FrameBlendingType_members)"
    by (simp add: distinct_map)
  then show ?thesis
    by (simp only: FrameBlendingType_UNIV [symmetric])
qed

lemma LayerQuality_UNIV: "UNIV = set LayerQuality_members"
proof -
  have "m \<in> set LayerQuality_members" for m
    by (cases m) (simp_all add: LayerQuality_members_def)
  then show ?thesis by blast
qed

lemma LayerQuality_range: "range LayerQuality_code =
     {10212, 10210, 10211}"
  unfolding LayerQuality_UNIV by (simp add: LayerQuality_members_def)

lemma LayerQuality_inj: "inj LayerQuality_code"
proof -
  have "distinct (map LayerQuality_code LayerQuality_members)"
    by (simp add: LayerQuality_members_def)
  then have "inj_on LayerQuality_code (set LayerQuality_members)"
    by (simp add: distinct_map)
  then show ?thesis
    by (simp only: LayerQuality_UNIV [symmetric])
qed

lemma LayerSamplingQuality_UNIV: "UNIV = set LayerSamplingQuality_members"
proof -
  have "m \<in> set LayerSamplingQuality_members" for m
    by (cases m) (simp_all add: LayerSamplingQuality_members_def)
  then show ?thesis by blast
qed

lemma LayerSamplingQuality_range: "range LayerSamplingQuality_code =
     {10201, 10202}"
  unfolding LayerSamplingQuality_UNIV by (simp add: LayerSamplingQuality_members_def)

lemma LayerSamplingQuality_inj: "inj LayerSamplingQuality_code"
proof -
  have "distinct (map LayerSamplingQuality_code LayerSamplingQuality_members)"
    by (simp add: LayerSamplingQuality_members_def)
  then have "inj_on LayerSamplingQuality_code (set LayerSamplingQuality_members)"
    by (simp add: distinct_map)
  then show ?thesis
    by (simp only: LayerSamplingQuality_UNIV [symmetric])
qed

lemma LightType_UNIV: "UNIV = set LightType_members"
proof -
  have "m \<in> set LightType_members" for m
    by (cases m) (simp_all add: LightType_members_def)
  then show ?thesis by blast
qed

lemma LightType_range: "range LightType_code =
     {4412, 4414, 4411, 4413}"
  unfolding LightType_UNIV by (simp add: LightType_members_def)

lemma LightType_inj: "inj LightType_code"
proof -
  have "distinct (map LightType_code LightType_members)"
    by (simp add: LightType_members_def)
  then have "inj_on LightType_code (set LightType_members)"
    by (simp add: distinct_map)
  then show ?thesis
    by (simp only: LightType_UNIV [symmetric])
qed

lemma TrackMatteType_UNIV: "UNIV = set TrackMatteType_members"
proof -
  have "m \<in> set TrackMatteType_members" for m
    by (cases m) (simp_all add: TrackMatteType_members_def)
  then show ?thesis by blast
qed

lemma TrackMatteType_range: "range TrackMatteType_code =
     {11312, 11313, 11314, 11315, 11311}"
  unfolding TrackMatteType_UNIV by (simp add: TrackMatteType_members_def)

lemma TrackMatteType_inj: "inj TrackMatteType_code"
proof -
  have "distinct (map TrackMatteType_code TrackMatteType_members)"
    by (simp add: TrackMatteType_members_def)
  then have "inj_on TrackMatteType_code (set TrackMatteType_members)"
    by (simp add: distinct_map)
  then show ?thesis
    by (simp only: TrackMatteType_UNIV [symmetric])
qed

section \<open>The claims\<close>

subsection \<open>C1: the closed interval\<close>

text \<open>
  C1, as amended. For all integers \<open>0 \<le> lo \<le> hi\<close> with \<open>hi\<close> within the span the checker
  supports (\<open>hi \<le> 999\<close>), \<^verbatim>\<open>NumericRange<lo, hi>\<close> produces a type, and that type
  contains an integer \<open>n\<close> if and only if \<open>lo \<le> n \<le> hi\<close>: both bounds and every integer
  between them are members, \<open>lo - 1\<close> and \<open>hi + 1\<close> are not, no member is fractional,
  and for \<open>lo = hi\<close> the set is the singleton \<open>{lo}\<close>.
\<close>

theorem NumericRange_closed_interval:
  assumes "0 \<le> lo" and "lo \<le> hi" and "hi < 1000"
  shows "\<exists>S. NumericRange lo hi [] {} = Some S
           \<and> S = of_int ` {lo..hi}
           \<and> (\<forall>n::int. of_int n \<in> S \<longleftrightarrow> lo \<le> n \<and> n \<le> hi)
           \<and> of_int lo \<in> S \<and> of_int hi \<in> S
           \<and> of_int (lo - 1) \<notin> S \<and> of_int (hi + 1) \<notin> S
           \<and> (lo = hi \<longrightarrow> S = {of_int lo})"
proof -
  have r: "NumericRange lo hi [] {} = Some (of_int ` {lo..hi})"
    using assms by (rule NumericRange_nat_interval)
  have m: "of_int n \<in> (of_int ` {lo..hi} :: rat set) \<longleftrightarrow> lo \<le> n \<and> n \<le> hi" for n :: int
    by auto
  have s: "lo = hi \<longrightarrow> (of_int ` {lo..hi} :: rat set) = {of_int lo}"
    by auto
  from m [of lo] m [of hi] assms
  have e: "of_int lo \<in> (of_int ` {lo..hi} :: rat set)" "of_int hi \<in> (of_int ` {lo..hi} :: rat set)"
    by simp_all
  from m [of "lo - 1"] m [of "hi + 1"]
  have o: "of_int (lo - 1) \<notin> (of_int ` {lo..hi} :: rat set)"
    "of_int (hi + 1) \<notin> (of_int ` {lo..hi} :: rat set)"
    by simp_all
  from r m s e o show ?thesis by blast
qed

theorem NumericRange_closed_interval_witness:
  "(0::int) \<le> 2 \<and> (2::int) \<le> 5 \<and> (5::int) < 1000
   \<and> NumericRange 2 5 [] {} = Some {2, 3, 4, 5}
   \<and> (1::rat) \<notin> {2, 3, 4, 5} \<and> (6::rat) \<notin> {2, 3, 4, 5}"
proof -
  have "{2..5::int} = {2, 3, 4, 5}" by auto
  then have "(of_int ` {2..5::int} :: rat set) = {2, 3, 4, 5}" by simp
  with NumericRange_closed_interval [of 2 5] show ?thesis by simp
qed

text \<open>
  C1 as stated, for every pair of integers \<open>lo \<le> hi\<close>, fails for a negative lower bound:
  \<^verbatim>\<open>NumericRange<-1, 1>\<close> is \<^verbatim>\<open>-1 | 1\<close>, which lacks the integer \<open>0\<close> between the
  bounds. The tuple counts up from length \<open>0\<close>, and at length \<open>0\<close> no index gives an
  element type, so \<open>0\<close> is never added.
\<close>

theorem NumericRange_negative_lower_counterexample:
  "(- 1 :: int) \<le> 1 \<and> (- 1 :: int) \<le> 0 \<and> (0 :: int) \<le> 1
   \<and> NumericRange (- 1) 1 [] {} = Some {- 1, 1} \<and> of_int 0 \<notin> {- 1, 1 :: rat}"
  using NumericRange_minus1_1 by simp

subsection \<open>C2: refinement of the reference algorithm\<close>

text \<open>
  C2, as amended. For all integers \<open>0 \<le> lo \<le> hi \<le> 999\<close>, the type-level recursion of
  \<^verbatim>\<open>NumericRange<lo, hi>\<close> and the specification's iterative accumulation (counter from
  the lower bound, stop at the upper bound, both endpoints included) both end and
  produce the same set, the closed interval.
\<close>

theorem NumericRange_refines_spec_interval:
  assumes "0 \<le> lo" and "lo \<le> hi" and "hi < 1000"
  shows "NumericRange lo hi [] {} = spec_interval lo hi
       \<and> spec_interval lo hi = Some (of_int ` {lo..hi})"
  using NumericRange_nat_interval [OF assms] spec_interval_closed [OF assms(2)] by simp

theorem NumericRange_refines_spec_interval_witness:
  "(0::int) \<le> 1 \<and> (1::int) \<le> 3 \<and> (3::int) < 1000
   \<and> NumericRange 1 3 [] {} = spec_interval 1 3
   \<and> spec_interval 1 3 = Some {1, 2, 3}"
proof -
  have "{1..3::int} = {1, 2, 3}" by auto
  then have "(of_int ` {1..3::int} :: rat set) = {1, 2, 3}" by simp
  with NumericRange_refines_spec_interval [of 1 3] show ?thesis by simp
qed

text \<open>
  C2 as stated, for every \<open>lo \<le> hi\<close>, fails for a negative lower bound: on \<open>[-1, 1]\<close> the
  reference algorithm gives \<open>{-1, 0, 1}\<close> and \<^verbatim>\<open>NumericRange<-1, 1>\<close> gives \<open>{-1, 1}\<close>.
\<close>

theorem spec_interval_negative_lower_counterexample:
  "(- 1 :: int) \<le> 1 \<and> spec_interval (- 1) 1 = Some {- 1, 0, 1}
   \<and> NumericRange (- 1) 1 [] {} = Some {- 1, 1}
   \<and> NumericRange (- 1) 1 [] {} \<noteq> spec_interval (- 1) 1"
proof -
  have "(0::rat) \<in> {- 1, 0, 1}" and "(0::rat) \<notin> {- 1, 1}" by simp_all
  then have "{- 1, 1} \<noteq> {- 1, 0, 1 :: rat}" by metis
  with NumericRange_minus1_1 spec_interval_minus1_1 show ?thesis by simp
qed

subsection \<open>C3: boundary intervals\<close>

text \<open>
  C3. The interval \<open>[0, 0]\<close> yields exactly the singleton \<open>{0}\<close>, and
  \<^verbatim>\<open>ConeAngleRange = NumericRange<1, 179>\<close> accepts \<open>1\<close>, \<open>179\<close> and every integer strictly
  between them, and rejects \<open>0\<close> and \<open>180\<close>.
\<close>

theorem boundary_intervals:
  "NumericRange 0 0 [] {} = Some {0}
   \<and> (\<exists>S. ConeAngleRange = Some S \<and> 1 \<in> S \<and> 179 \<in> S
          \<and> (\<forall>n::int. 1 < n \<and> n < 179 \<longrightarrow> of_int n \<in> S)
          \<and> 0 \<notin> S \<and> 180 \<notin> S)"
proof -
  have z: "NumericRange 0 0 [] {} = Some {0}"
    using NumericRange_nat_interval [of 0 0] by simp
  have c: "ConeAngleRange = Some (of_int ` {1..179})"
    unfolding ConeAngleRange_def using NumericRange_nat_interval [of 1 179] by simp
  have m: "of_int n \<in> (of_int ` {1..179} :: rat set) \<longleftrightarrow> 1 \<le> n \<and> n \<le> 179" for n :: int
    by auto
  have "(1::rat) \<in> of_int ` {1..179}" using m [of 1] by simp
  moreover have "(179::rat) \<in> of_int ` {1..179}" using m [of 179] by simp
  moreover have "(0::rat) \<notin> of_int ` {1..179}" using m [of 0] by simp
  moreover have "(180::rat) \<notin> of_int ` {1..179}" using m [of 180] by simp
  moreover have "\<forall>n::int. 1 < n \<and> n < 179 \<longrightarrow> of_int n \<in> (of_int ` {1..179} :: rat set)"
    using m by simp
  ultimately show ?thesis using z c by blast
qed

theorem boundary_intervals_witness:
  "(1::int) < 90 \<and> (90::int) < 179 \<and> (\<exists>S. ConeAngleRange = Some S \<and> of_int 90 \<in> S)"
proof -
  from boundary_intervals obtain S where S: "ConeAngleRange = Some S"
    and between: "\<forall>n::int. 1 < n \<and> n < 179 \<longrightarrow> of_int n \<in> S"
    by blast
  from between [rule_format, of 90] have "of_int 90 \<in> S" by simp
  with S show ?thesis by auto
qed

subsection \<open>C4: the codes of the enumerations\<close>

text \<open>
  C4. In each enumeration of the layer module every member resolves to the integer its
  declaration documents: the initialiser of a member equals the number of its
  \<^verbatim>\<open>Integer value\<close> remark wherever there is one, the tables of codes are as declared,
  and in particular \<^verbatim>\<open>AutoOrientType.NO_AUTO_ORIENT = 4212\<close>,
  \<^verbatim>\<open>AutoOrientType.ALONG_PATH = 4213\<close>, \<^verbatim>\<open>BlendingMode.NORMAL = 5204\<close> and
  \<^verbatim>\<open>TrackMatteType.NO_TRACK_MATTE = 11311\<close>.
\<close>

theorem enum_codes_as_documented:
  "(\<forall>m. AutoOrientType_code m = AutoOrientType_documented m)
   \<and> (\<forall>m. FrameBlendingType_code m = FrameBlendingType_documented m)
   \<and> (\<forall>m. LayerQuality_code m = LayerQuality_documented m)
   \<and> (\<forall>m. LayerSamplingQuality_code m = LayerSamplingQuality_documented m)
   \<and> (\<forall>m. LightType_code m = LightType_documented m)
   \<and> (\<forall>m. TrackMatteType_code m = TrackMatteType_documented m)
   \<and> map AutoOrientType_code AutoOrientType_members =
       [4213, 4214, 4215, 4212]
   \<and> map BlendingMode_code BlendingMode_members =
       [5220, 5244, 5213, 5212, 5209, 5216, 5227, 5226, 5206, 5207, 5245, 5223, 5205,
        5246, 5224, 5218, 5230, 5214, 5208, 5243, 5228, 5229, 5233, 5221, 5217, 5210,
        5204, 5211, 5234, 5215, 5222, 5219, 5225, 5231, 5235, 5236, 5247, 5232]
   \<and> map FrameBlendingType_code FrameBlendingType_members =
       [11213, 11211, 11212]
   \<and> map LayerQuality_code LayerQuality_members =
       [10212, 10210, 10211]
   \<and> map LayerSamplingQuality_code LayerSamplingQuality_members =
       [10201, 10202]
   \<and> map LightType_code LightType_members =
       [4412, 4414, 4411, 4413]
   \<and> map TrackMatteType_code TrackMatteType_members =
       [11312, 11313, 11314, 11315, 11311]
   \<and> AutoOrientType_code NO_AUTO_ORIENT = 4212
   \<and> AutoOrientType_code ALONG_PATH = 4213
   \<and> BlendingMode_code NORMAL = 5204
   \<and> TrackMatteType_code NO_TRACK_MATTE = 11311"
proof -
  have autoOrientType_doc: "AutoOrientType_code m = AutoOrientType_documented m" for m
    by (cases m) simp_all
  have frameBlendingType_doc: "FrameBlendingType_code m = FrameBlendingType_documented m" for m
    by (cases m) simp_all
  have layerQuality_doc: "LayerQuality_code m = LayerQuality_documented m" for m
    by (cases m) simp_all
  have layerSamplingQuality_doc: "LayerSamplingQuality_code m = LayerSamplingQuality_documented m" for m
    by (cases m) simp_all
  have lightType_doc: "LightType_code m = LightType_documented m" for m
    by (cases m) simp_all
  have trackMatteType_doc: "TrackMatteType_code m = TrackMatteType_documented m" for m
    by (cases m) simp_all
  show ?thesis
    by (simp add: autoOrientType_doc frameBlendingType_doc layerQuality_doc layerSamplingQuality_doc lightType_doc trackMatteType_doc
        AutoOrientType_members_def
        BlendingMode_members_def
        FrameBlendingType_members_def
        LayerQuality_members_def
        LayerSamplingQuality_members_def
        LightType_members_def
        TrackMatteType_members_def)
qed

subsection \<open>C5: unique and disjoint codes\<close>

text \<open>
  C5. Within each of the seven enumerations the map from member to code is injective,
  and the sets of codes of any two different enumerations are disjoint.
\<close>

theorem enum_codes_unique_and_disjoint:
  "inj AutoOrientType_code
   \<and> inj BlendingMode_code
   \<and> inj FrameBlendingType_code
   \<and> inj LayerQuality_code
   \<and> inj LayerSamplingQuality_code
   \<and> inj LightType_code
   \<and> inj TrackMatteType_code
   \<and> range AutoOrientType_code \<inter> range BlendingMode_code = {}
   \<and> range AutoOrientType_code \<inter> range FrameBlendingType_code = {}
   \<and> range AutoOrientType_code \<inter> range LayerQuality_code = {}
   \<and> range AutoOrientType_code \<inter> range LayerSamplingQuality_code = {}
   \<and> range AutoOrientType_code \<inter> range LightType_code = {}
   \<and> range AutoOrientType_code \<inter> range TrackMatteType_code = {}
   \<and> range BlendingMode_code \<inter> range FrameBlendingType_code = {}
   \<and> range BlendingMode_code \<inter> range LayerQuality_code = {}
   \<and> range BlendingMode_code \<inter> range LayerSamplingQuality_code = {}
   \<and> range BlendingMode_code \<inter> range LightType_code = {}
   \<and> range BlendingMode_code \<inter> range TrackMatteType_code = {}
   \<and> range FrameBlendingType_code \<inter> range LayerQuality_code = {}
   \<and> range FrameBlendingType_code \<inter> range LayerSamplingQuality_code = {}
   \<and> range FrameBlendingType_code \<inter> range LightType_code = {}
   \<and> range FrameBlendingType_code \<inter> range TrackMatteType_code = {}
   \<and> range LayerQuality_code \<inter> range LayerSamplingQuality_code = {}
   \<and> range LayerQuality_code \<inter> range LightType_code = {}
   \<and> range LayerQuality_code \<inter> range TrackMatteType_code = {}
   \<and> range LayerSamplingQuality_code \<inter> range LightType_code = {}
   \<and> range LayerSamplingQuality_code \<inter> range TrackMatteType_code = {}
   \<and> range LightType_code \<inter> range TrackMatteType_code = {}"
  by (simp add: AutoOrientType_inj AutoOrientType_range
      BlendingMode_inj BlendingMode_range
      FrameBlendingType_inj FrameBlendingType_range
      LayerQuality_inj LayerQuality_range
      LayerSamplingQuality_inj LayerSamplingQuality_range
      LightType_inj LightType_range
      TrackMatteType_inj TrackMatteType_range)

subsection \<open>C6: branded ranges\<close>

text \<open>
  C6. The branded types \<^verbatim>\<open>ApertureRange\<close>, \<^verbatim>\<open>TimeRange\<close>, \<^verbatim>\<open>DurationRange\<close> and
  \<^verbatim>\<open>PixelDimension\<close> enforce no bound: every number, asserted to the type, is a value
  of it, also a number outside the documented range, such as \<open>99999\<close> for
  \<^verbatim>\<open>TimeRange\<close> (documented as -10800 to 10800).
\<close>

theorem branded_ranges_unbounded:
  "(\<forall>x. as_brand ''ApertureRange'' x \<in> ApertureRange)
   \<and> (\<forall>x. as_brand ''TimeRange'' x \<in> TimeRange)
   \<and> (\<forall>x. as_brand ''DurationRange'' x \<in> DurationRange)
   \<and> (\<forall>x. as_brand ''PixelDimension'' x \<in> PixelDimension)
   \<and> \<not> in_documented TimeRange_documented 99999
   \<and> as_brand ''TimeRange'' 99999 \<in> TimeRange
   \<and> \<not> in_documented ApertureRange_documented 100
   \<and> as_brand ''ApertureRange'' 100 \<in> ApertureRange
   \<and> \<not> in_documented DurationRange_documented (- 1)
   \<and> as_brand ''DurationRange'' (- 1) \<in> DurationRange
   \<and> \<not> in_documented PixelDimension_documented 0
   \<and> as_brand ''PixelDimension'' 0 \<in> PixelDimension"
  by (simp add: as_brand_def ApertureRange_def TimeRange_def DurationRange_def
      PixelDimension_def in_documented_def ApertureRange_documented_def
      TimeRange_documented_def DurationRange_documented_def PixelDimension_documented_def)

subsection \<open>C7: the spans of the instantiations\<close>

text \<open>
  C7, as amended. The six aliases defined as \<^verbatim>\<open>NumericRange<lo, hi>\<close> have the spans
  \<open>hi - lo\<close> of 100, 100, 16, 1, 178 and 2: every span is at most 178, and the spans of
  \<^verbatim>\<open>LabelIndex\<close>, \<^verbatim>\<open>ColorComponent\<close> and \<^verbatim>\<open>IORRange\<close> are single- or double-digit.
\<close>

theorem NumericRange_alias_spans:
  "map span NumericRange_aliases = [100, 100, 16, 1, 178, 2]
   \<and> list_all (span_at_most 178) NumericRange_aliases
   \<and> map instantiate NumericRange_aliases =
       [Percentage, OpacityRange, LabelIndex, ColorComponent, ConeAngleRange, IORRange]"
  by (simp add: NumericRange_aliases_def span_at_most_def Percentage_def OpacityRange_def
      LabelIndex_def ColorComponent_def ConeAngleRange_def IORRange_def)

text \<open>
  C7 as stated, every span at most 99, fails: \<^verbatim>\<open>Percentage = NumericRange<0, 100>\<close> has
  the three-digit span 100.
\<close>

theorem Percentage_span_counterexample:
  "(''Percentage'', 0, 100) \<in> set NumericRange_aliases
   \<and> span (''Percentage'', 0, 100) = 100
   \<and> \<not> span_at_most 99 (''Percentage'', 0, 100)
   \<and> \<not> list_all (span_at_most 99) NumericRange_aliases"
  by (simp add: NumericRange_aliases_def span_at_most_def)

subsection \<open>C8: deriving a range twice\<close>




subsection \<open>C9: reversed bounds\<close>

text \<open>
  C9, as amended. For natural-number bounds with \<open>lo > hi\<close> and \<open>hi \<le> 999\<close>,
  \<^verbatim>\<open>NumericRange<lo, hi>\<close> produces exactly the two-element set \<open>{lo, hi}\<close>: a type is
  produced, it is not empty, and it contains no integer other than the two bounds.
\<close>

theorem NumericRange_reversed_bounds:
  fixes lo hi :: nat
  assumes "hi < lo" and "hi < 1000"
  shows "\<exists>S. NumericRange (int lo) (int hi) [] {} = Some S
           \<and> S = {of_nat lo, of_nat hi} \<and> S \<noteq> {}
           \<and> (\<forall>n::int. of_int n \<in> S \<longleftrightarrow> n = int lo \<or> n = int hi)"
proof -
  have r: "NumericRange (int lo) (int hi) [] {} = Some {of_nat lo, of_nat hi}"
    using NumericRange_reversed_nat [of "int hi" "int lo"] assms by simp
  have m: "of_int n \<in> {of_nat lo, of_nat hi :: rat} \<longleftrightarrow> n = int lo \<or> n = int hi"
    for n :: int
    by (metis insert_iff empty_iff of_int_eq_iff of_int_of_nat_eq)
  from r m show ?thesis by simp
qed

theorem NumericRange_reversed_bounds_witness:
  "(2::nat) < 5 \<and> (2::nat) < 1000 \<and> NumericRange 5 2 [] {} = Some {5, 2}"
  using NumericRange_reversed_bounds [of 2 5] by simp

text \<open>
  C9 as stated, for every pair of natural-number bounds with \<open>lo > hi\<close>, fails beyond the
  checker's limit: \<^verbatim>\<open>NumericRange<2000, 1000>\<close> needs 1000 tail calls and is rejected.
\<close>

theorem NumericRange_reversed_too_deep_counterexample:
  "(1000::nat) < 2000 \<and> NumericRange (int 2000) (int 1000) [] {} = None"
  using NumericRange_too_deep [of 1000 2000] by simp

subsection \<open>C10: colour components\<close>

text \<open>
  C10. \<^verbatim>\<open>ColorComponent = NumericRange<0, 1>\<close> contains exactly \<open>0\<close> and \<open>1\<close>, so a
  \<^verbatim>\<open>Color\<close> triple admits only components equal to \<open>0\<close> or \<open>1\<close>: the fractional
  component \<open>0.5\<close> is not admissible, although it lies in the documented range
  0.0 to 1.0.
\<close>

theorem ColorComponent_integers_only:
  "ColorComponent = Some {0, 1}
   \<and> (1 / 2 :: rat) \<notin> {0, 1}
   \<and> in_documented ColorComponent_documented (1 / 2)
   \<and> (\<exists>C. Color = Some C
         \<and> (\<forall>r g b. (r, g, b) \<in> C \<longleftrightarrow> r \<in> {0, 1} \<and> g \<in> {0, 1} \<and> b \<in> {0, 1})
         \<and> (1 / 2, 0, 1) \<notin> C \<and> (1, 0, 1) \<in> C)"
proof -
  have "{0..1::int} = {0, 1}" by auto
  then have "(of_int ` {0..1::int} :: rat set) = {0, 1}" by simp
  with NumericRange_nat_interval [of 0 1] have c: "ColorComponent = Some {0, 1}"
    by (simp add: ColorComponent_def)
  have t: "Color = Some ({0, 1} \<times> {0, 1} \<times> {0, 1})"
    unfolding Color_def c by (simp only: option.case)
  have m: "(r, g, b) \<in> ({0, 1} \<times> {0, 1} \<times> {0, 1} :: (rat \<times> rat \<times> rat) set)
             \<longleftrightarrow> r \<in> {0, 1} \<and> g \<in> {0, 1} \<and> b \<in> {0, 1}" for r g b
    by (simp only: mem_Sigma_iff)
  have half: "(1 / 2, 0, 1) \<notin> ({0, 1} \<times> {0, 1} \<times> {0, 1} :: (rat \<times> rat \<times> rat) set)"
    unfolding m by simp
  have ones: "(1, 0, 1) \<in> ({0, 1} \<times> {0, 1} \<times> {0, 1} :: (rat \<times> rat \<times> rat) set)"
    unfolding m by simp
  have d: "in_documented ColorComponent_documented (1 / 2)"
    by (simp add: in_documented_def ColorComponent_documented_def)
  have h: "(1 / 2 :: rat) \<notin> {0, 1}" by simp
  from t m half ones
  have "\<exists>C. Color = Some C
         \<and> (\<forall>r g b. (r, g, b) \<in> C \<longleftrightarrow> r \<in> {0, 1} \<and> g \<in> {0, 1} \<and> b \<in> {0, 1})
         \<and> (1 / 2, 0, 1) \<notin> C \<and> (1, 0, 1) \<in> C"
    by blast
  with c d h show ?thesis by blast
qed

end
